theory Spec2Isabelle
  imports Main
begin

section \<open>JavaScript values, errors and the few built-ins the parser relies on\<close>

text \<open>
  The command parser is JavaScript. Values that reach it, or that it hands to the argument
  parsers and validators, are primitives and arrays. Numbers are only ever produced by
  the imported converters and are never computed with here, so an integer payload (plus
  \<open>NaN\<close>) is enough to tell a parsed number from the string it came from.

  A string is the list of its UTF-16 code units. The model covers code units below 256
  (the ISO-8859-1 range), one \<^typ>\<open>char\<close> each; on that range \<open>toLowerCase\<close> below is
  the Unicode lower-casing that JavaScript performs.
\<close>

datatype jsval =
    JUndefined
  | JNull
  | JBool bool
  | JNum int
  | JNaN
  | JStr string
  | JArr "jsval list"

text \<open>
  Every error the parser itself raises is a \<open>TypeError\<close>: one is thrown explicitly
  (\<open>CommandParser.parse\<close>, for a non-string input, with the \<open>typeof\<close> of the input
  in its message), the others are raised by the engine when a property of \<open>undefined\<close>
  is read, when a missing field is called, or when a non-iterable value is destructured.
  Imported code may throw errors of other classes; those are identified by class name.
\<close>

datatype cause =
    ExpectsString string
  | PropertyOfUndefined string
  | NotAFunction string
  | NotIterable

datatype error =
    TypeError cause
  | OtherError string

type_synonym 'a result = "error + 'a"

definition bind_err :: "'a result \<Rightarrow> ('a \<Rightarrow> 'b result) \<Rightarrow> 'b result" where
  "bind_err r f = (case r of Inl e \<Rightarrow> Inl e | Inr v \<Rightarrow> f v)"

fun typeof :: "jsval \<Rightarrow> string" where
  "typeof JUndefined = ''undefined''"
| "typeof JNull = ''object''"
| "typeof (JBool b) = ''boolean''"
| "typeof (JNum n) = ''number''"
| "typeof JNaN = ''number''"
| "typeof (JStr s) = ''string''"
| "typeof (JArr xs) = ''object''"

text \<open>\<open>lodash/isString\<close>: true of string primitives (boxed strings are not modelled).\<close>

fun lodash_isString :: "jsval \<Rightarrow> bool" where
  "lodash_isString (JStr s) = True"
| "lodash_isString v = False"

text \<open>\<open>lodash/tail\<close>: all but the first element; the empty array for an empty array.\<close>

fun lodash_tail :: "'a list \<Rightarrow> 'a list" where
  "lodash_tail [] = []"
| "lodash_tail (x # xs) = xs"

text \<open>
  \<open>String.prototype.toLowerCase\<close> on code units below 256: \<open>A\<close>..\<open>Z\<close> and the
  accented capitals \<open>0xC0\<close>..\<open>0xDE\<close> (without the multiplication sign \<open>0xD7\<close>) move
  up by 32; every other code unit is its own lower case.
\<close>

definition toLowerChar :: "char \<Rightarrow> char" where
  "toLowerChar c =
     (let n = (of_char c :: nat)
      in if (65 \<le> n \<and> n \<le> 90) \<or> (192 \<le> n \<and> n \<le> 222 \<and> n \<noteq> 215)
         then char_of (n + 32) else c)"

definition toLowerCase :: "string \<Rightarrow> string" where
  "toLowerCase s = map toLowerChar s"

text \<open>
  \<open>String.prototype.split\<close> with a one-character separator: the pieces between
  consecutive separators, empty pieces included; a string without the separator (the
  empty string too) is a single piece.
\<close>

fun split :: "char \<Rightarrow> string \<Rightarrow> string list" where
  "split sep [] = [[]]"
| "split sep (c # cs) =
     (if c = sep then [] # split sep cs
      else (case split sep cs of
              [] \<Rightarrow> [[c]]
            | t # ts \<Rightarrow> (c # t) # ts))"

text \<open>
  \<open>Array.prototype.indexOf\<close> on an array of strings: position of the first element
  strictly equal to the sought value, \<open>-1\<close> if there is none. Only the same string is
  strictly equal to a string.
\<close>

fun indexOf :: "string list \<Rightarrow> jsval \<Rightarrow> int" where
  "indexOf [] v = -1"
| "indexOf (a # as) v =
     (if v = JStr a then 0
      else (let i = indexOf as v in if i = -1 then -1 else i + 1))"

text \<open>Reading \<open>xs[i]\<close> from an array: \<open>undefined\<close> beyond its length.\<close>

fun element :: "jsval list \<Rightarrow> nat \<Rightarrow> jsval" where
  "element [] i = JUndefined"
| "element (x # xs) 0 = x"
| "element (x # xs) (Suc i) = element xs i"

text \<open>
  Reading \<open>v[0]\<close> from any value: an array element, a one-character string, \<open>undefined\<close>
  on other primitives, a \<open>TypeError\<close> on \<open>undefined\<close> and \<open>null\<close>.
\<close>

fun first_of :: "jsval \<Rightarrow> jsval result" where
  "first_of (JArr xs) = Inr (element xs 0)"
| "first_of (JStr s) = Inr (case s of [] \<Rightarrow> JUndefined | c # cs \<Rightarrow> JStr [c])"
| "first_of JUndefined = Inl (TypeError (PropertyOfUndefined ''0''))"
| "first_of JNull = Inl (TypeError (PropertyOfUndefined ''0''))"
| "first_of v = Inr JUndefined"

text \<open>
  The array pattern \<open>const [a, b] = v\<close>: the first two values the iterator of \<open>v\<close> yields
  (\<open>undefined\<close> once it is exhausted). Arrays yield their elements and strings their
  characters; nothing else modelled here is iterable.
\<close>

fun destructure2 :: "jsval \<Rightarrow> (jsval \<times> jsval) result" where
  "destructure2 (JArr xs) = Inr (element xs 0, element xs 1)"
| "destructure2 (JStr s) = Inr (element (map (\<lambda>c. JStr [c]) s) 0, element (map (\<lambda>c. JStr [c]) s) 1)"
| "destructure2 v = Inl (TypeError NotIterable)"

section \<open>The command registries (\<open>CommandDefinition.js\<close>)\<close>

text \<open>
  A registry entry is an object literal with up to four fields; a field that the literal
  does not mention is absent (\<open>None\<close>). The \<open>validate\<close> and \<open>parse\<close> fields refer to
  functions by name. \<open>noop\<close> and the three arrow functions written inline in the
  registry are defined in the source; the others are imported from
  \<open>parser/ArgumentValidators\<close> and \<open>parser/ArgumentParsers\<close>.
\<close>

datatype validator =
    zeroArgumentsValidator
  | singleArgumentValidator
  | zeroOrOneArgumentValidator
  | altitudeValidator
  | fixValidator
  | headingValidator
  | holdValidator
  | squawkValidator
  | optionalAltitudeValidator
  | crossingValidator

datatype parser =
    noop
  | altitudeParser
  | headingParser
  | holdParser
  | timewarpParser
  | optionalAltitudeParser
  | crossingParser
  | ils_arrow
  | speed_arrow
  | rate_arrow

record command_definition =
  aliases :: "string list option"
  functionName :: "string option"
  validate_field :: "validator option"
  parse_field :: "parser option"

text \<open>The aliases an entry accepts; none when it has no \<open>aliases\<close> field.\<close>

definition alias_list :: "command_definition \<Rightarrow> string list" where
  "alias_list d = (case aliases d of None \<Rightarrow> [] | Some as \<Rightarrow> as)"

text \<open>
  An object literal keeps its string keys in the order written, which is the order
  \<open>lodash/findKey\<close> visits them in: a registry is an association list.
\<close>

type_synonym registry = "(string \<times> command_definition) list"

definition aircraft_entry :: "string list \<Rightarrow> string \<Rightarrow> validator \<Rightarrow> parser \<Rightarrow> command_definition" where
  "aircraft_entry as f v p =
     \<lparr>aliases = Some as, functionName = Some f, validate_field = Some v, parse_field = Some p\<rparr>"

definition system_entry :: "validator \<Rightarrow> parser \<Rightarrow> command_definition" where
  "system_entry v p =
     \<lparr>aliases = None, functionName = None, validate_field = Some v, parse_field = Some p\<rparr>"

definition empty_entry :: command_definition where
  "empty_entry = \<lparr>aliases = None, functionName = None, validate_field = None, parse_field = None\<rparr>"

definition AIRCRAFT_COMMAND_MAP :: registry where
  "AIRCRAFT_COMMAND_MAP =
   [(''abort'', aircraft_entry [''abort''] ''runAbort'' zeroArgumentsValidator noop),
    (''altitude'', aircraft_entry [''a'', ''altitude'', ''c'', ''climb'', ''d'', ''descend'']
        ''runAltitude'' altitudeValidator altitudeParser),
    (''cancelHold'', aircraft_entry [''exithold'', ''cancelhold'', ''continue'', ''nohold'', ''xh'']
        ''runCancelHoldingPattern'' zeroOrOneArgumentValidator noop),
    (''clearedAsFiled'', aircraft_entry [''caf'', ''clearedAsFiled'']
        ''runClearedAsFiled'' zeroArgumentsValidator noop),
    (''climbViaSid'', aircraft_entry [''climbViaSid'', ''cvs'']
        ''runClimbViaSID'' optionalAltitudeValidator optionalAltitudeParser),
    (''cross'', aircraft_entry [''cross'', ''cr'', ''x''] ''runCross'' crossingValidator crossingParser),
    (''delete'', aircraft_entry [''del'', ''delete'', ''kill''] ''runDelete'' zeroArgumentsValidator noop),
    (''descendViaStar'', aircraft_entry [''descendViaStar'', ''dvs'']
        ''runDescendViaStar'' optionalAltitudeValidator optionalAltitudeParser),
    (''direct'', aircraft_entry [''dct'', ''direct'', ''pd''] ''runDirect'' singleArgumentValidator noop),
    (''expectArrivalRunway'', aircraft_entry [''e'']
        ''runExpectArrivalRunway'' singleArgumentValidator noop),
    (''fix'', aircraft_entry [''f'', ''fix'', ''track''] ''runFix'' fixValidator noop),
    (''flyPresentHeading'', aircraft_entry [''fph''] ''runFlyPresentHeading'' zeroArgumentsValidator noop),
    (''heading'', aircraft_entry [''fh'', ''h'', ''heading'', ''t'', ''turn'']
        ''runHeading'' headingValidator headingParser),
    (''hold'', aircraft_entry [''hold''] ''runHold'' holdValidator holdParser),
    (''ils'', aircraft_entry [''*'', ''i'', ''ils''] ''runIls'' singleArgumentValidator ils_arrow),
    (''land'', aircraft_entry [''land''] ''runLand'' zeroOrOneArgumentValidator noop),
    (''moveDataBlock'', aircraft_entry [''`''] ''runMoveDataBlock'' singleArgumentValidator noop),
    (''reroute'', aircraft_entry [''reroute'', ''rr''] ''runReroute'' singleArgumentValidator noop),
    (''route'', aircraft_entry [''route''] ''runRoute'' singleArgumentValidator noop),
    (''sayAltitude'', aircraft_entry [''sa''] ''runSayAltitude'' zeroArgumentsValidator noop),
    (''sayAssignedAltitude'', aircraft_entry [''saa'']
        ''runSayAssignedAltitude'' zeroArgumentsValidator noop),
    (''sayAssignedHeading'', aircraft_entry [''sah'']
        ''runSayAssignedHeading'' zeroArgumentsValidator noop),
    (''sayAssignedSpeed'', aircraft_entry [''sas''] ''runSayAssignedSpeed'' zeroArgumentsValidator noop),
    (''sayHeading'', aircraft_entry [''sh''] ''runSayHeading'' zeroArgumentsValidator noop),
    (''sayIndicatedAirspeed'', aircraft_entry [''si'']
        ''runSayIndicatedAirspeed'' zeroArgumentsValidator noop),
    (''sayRoute'', aircraft_entry [''sr''] ''runSayRoute'' zeroArgumentsValidator noop),
    (''sid'', aircraft_entry [''sid''] ''runSID'' singleArgumentValidator noop),
    (''speed'', aircraft_entry [''-'', ''+'', ''slow'', ''sp'', ''speed'']
        ''runSpeed'' singleArgumentValidator speed_arrow),
    (''squawk'', aircraft_entry [''sq'', ''squawk''] ''runSquawk'' squawkValidator noop),
    (''star'', aircraft_entry [''star''] ''runSTAR'' singleArgumentValidator noop),
    (''takeoff'', aircraft_entry [''cto'', ''to'', ''takeoff''] ''runTakeoff'' zeroArgumentsValidator noop),
    (''taxi'', aircraft_entry [''taxi'', ''w'', ''wait''] ''runTaxi'' zeroOrOneArgumentValidator noop)]"

text \<open>
  The system registry of \<open>CommandDefinition.js\<close>, the module \<open>CommandParser.js\<close>
  imports. Its entries have no \<open>aliases\<close> field, and \<open>transmit\<close> is the empty object.
\<close>

definition SYSTEM_COMMAND_MAP :: registry where
  "SYSTEM_COMMAND_MAP =
   [(''airac'', system_entry zeroArgumentsValidator noop),
    (''airport'', system_entry singleArgumentValidator noop),
    (''auto'', system_entry zeroArgumentsValidator noop),
    (''clear'', system_entry zeroArgumentsValidator noop),
    (''debug'', system_entry zeroArgumentsValidator noop),
    (''pause'', system_entry zeroArgumentsValidator noop),
    (''rate'', system_entry singleArgumentValidator rate_arrow),
    (''timewarp'', system_entry zeroOrOneArgumentValidator timewarpParser),
    (''transmit'', empty_entry),
    (''tutorial'', system_entry zeroArgumentsValidator noop)]"

text \<open>
  The module \<open>definitions/systemCommand/systemCommandMap.js\<close> exports a system registry
  of the same name, with two more entries (an older copy of that module has the first ten
  only). The command parser does not import it. Its entries have no \<open>aliases\<close> field
  either, and its \<open>transmit\<close> entry is the empty object too.
\<close>

definition systemCommandMap_SYSTEM_COMMAND_MAP :: registry where
  "systemCommandMap_SYSTEM_COMMAND_MAP =
   [(''airac'', system_entry zeroArgumentsValidator noop),
    (''airport'', system_entry singleArgumentValidator noop),
    (''auto'', system_entry zeroArgumentsValidator noop),
    (''clear'', system_entry zeroArgumentsValidator noop),
    (''debug'', system_entry zeroArgumentsValidator noop),
    (''pause'', system_entry zeroArgumentsValidator noop),
    (''rate'', system_entry singleArgumentValidator rate_arrow),
    (''timewarp'', system_entry zeroOrOneArgumentValidator timewarpParser),
    (''transmit'', empty_entry),
    (''tutorial'', system_entry zeroArgumentsValidator noop),
    (''moveDataBlock'', system_entry singleArgumentValidator noop),
    (''`'', system_entry singleArgumentValidator rate_arrow)]"

text \<open>
  \<open>lodash/findKey\<close> with a function predicate: the own keys in order, the first one
  whose value satisfies the predicate, \<open>undefined\<close> (\<open>None\<close>) if none does. An exception
  in the predicate ends the search.
\<close>

fun lodash_findKey :: "(string \<times> 'a) list \<Rightarrow> ('a \<Rightarrow> bool result) \<Rightarrow> string option result" where
  "lodash_findKey [] predicate = Inr None"
| "lodash_findKey ((key, v) # rest) predicate =
     (case predicate v of
        Inl e \<Rightarrow> Inl e
      | Inr found \<Rightarrow> if found then Inr (Some key) else lodash_findKey rest predicate)"

text \<open>
  \<open>aliasToRootCommand(where, commandAlias)\<close>. The predicate reads \<open>command.aliases\<close>
  and calls \<open>indexOf\<close> on it without a check: on an entry with no \<open>aliases\<close> field that is
  a property read on \<open>undefined\<close>.
\<close>

definition aliasToRootCommand :: "registry \<Rightarrow> jsval \<Rightarrow> string option result" where
  "aliasToRootCommand registry commandAlias =
     lodash_findKey registry
       (\<lambda>command. case aliases command of
                     None \<Rightarrow> Inl (TypeError (PropertyOfUndefined ''indexOf''))
                   | Some as \<Rightarrow> Inr (indexOf as commandAlias \<noteq> -1))"

text \<open>
  The \<open>in\<close> operator looks a key up along the prototype chain. The registries are
  object literals, so besides their own keys they inherit the property names of
  \<open>Object.prototype\<close>.
\<close>

definition Object_prototype_properties :: "string list" where
  "Object_prototype_properties =
   [''constructor'', ''__defineGetter__'', ''__defineSetter__'', ''hasOwnProperty'',
    ''__lookupGetter__'', ''__lookupSetter__'', ''isPrototypeOf'', ''propertyIsEnumerable'',
    ''toString'', ''valueOf'', ''__proto__'', ''toLocaleString'']"

definition own_keys :: "registry \<Rightarrow> string list" where
  "own_keys registry = map fst registry"

definition js_in :: "string \<Rightarrow> registry \<Rightarrow> bool" where
  "js_in key registry = (key \<in> set (own_keys registry) \<or> key \<in> set Object_prototype_properties)"

text \<open>
  \<open>registry[rootCmd]\<close>, where \<open>rootCmd\<close> is what \<open>aliasToRootCommand\<close> returned: an own
  key of the registry, whose entry is read, or \<open>undefined\<close>, which is read as the key
  \<open>"undefined"\<close>. That is no property name of \<open>Object.prototype\<close>, so in both cases the
  own entries decide.
\<close>

definition get_entry :: "registry \<Rightarrow> string option \<Rightarrow> command_definition option" where
  "get_entry registry rootCmd =
     (case rootCmd of None \<Rightarrow> map_of registry ''undefined'' | Some key \<Rightarrow> map_of registry key)"

definition key_value :: "string option \<Rightarrow> jsval" where
  "key_value rootCmd = (case rootCmd of None \<Rightarrow> JUndefined | Some key \<Rightarrow> JStr key)"

section \<open>Imported argument parsers, validators and converters\<close>

text \<open>
  \<open>parser/ArgumentParsers\<close>, \<open>parser/ArgumentValidators\<close> and
  \<open>utilities/unitConverters\<close> are imported by the registry module. The command parser
  only calls them; it is verified for every choice of these functions, each a function
  from a value to a value or a thrown error.
\<close>

record externals =
  convertStringToNumber :: "jsval \<Rightarrow> jsval result"
  argumentValidators :: "validator \<Rightarrow> jsval \<Rightarrow> jsval result"
  argumentParsers :: "parser \<Rightarrow> jsval \<Rightarrow> jsval result"

text \<open>
  Calling a \<open>parse\<close> function of the registry. \<open>noop\<close> is \<open>(args) => args\<close>; the arrow
  of \<open>ils\<close> is \<open>(args) => [null, args[0]]\<close>; the arrows of \<open>speed\<close> and of \<open>rate\<close>
  (and of the backtick entry of \<open>systemCommandMap.js\<close>) are
  \<open>(arg) => [convertStringToNumber(arg)]\<close>.
\<close>

definition run_parser :: "externals \<Rightarrow> parser \<Rightarrow> jsval \<Rightarrow> jsval result" where
  "run_parser ext p a =
     (case p of
        noop \<Rightarrow> Inr a
      | ils_arrow \<Rightarrow> bind_err (first_of a) (\<lambda>x. Inr (JArr [JNull, x]))
      | speed_arrow \<Rightarrow> bind_err (convertStringToNumber ext a) (\<lambda>n. Inr (JArr [n]))
      | rate_arrow \<Rightarrow> bind_err (convertStringToNumber ext a) (\<lambda>n. Inr (JArr [n]))
      | _ \<Rightarrow> argumentParsers ext p a)"

text \<open>
  \<open>entry.parse(a)\<close> and \<open>entry.validate(a)\<close> for \<open>entry = registry[rootCmd]\<close>: reading the
  field of an undefined entry and calling an absent field are both \<open>TypeError\<close>s.
\<close>

definition call_parse :: "externals \<Rightarrow> command_definition option \<Rightarrow> jsval \<Rightarrow> jsval result" where
  "call_parse ext entry a =
     (case entry of
        None \<Rightarrow> Inl (TypeError (PropertyOfUndefined ''parse''))
      | Some d \<Rightarrow>
          (case parse_field d of
             None \<Rightarrow> Inl (TypeError (NotAFunction ''parse''))
           | Some p \<Rightarrow> run_parser ext p a))"

definition call_validate :: "externals \<Rightarrow> command_definition option \<Rightarrow> jsval \<Rightarrow> jsval result" where
  "call_validate ext entry a =
     (case entry of
        None \<Rightarrow> Inl (TypeError (PropertyOfUndefined ''validate''))
      | Some d \<Rightarrow>
          (case validate_field d of
             None \<Rightarrow> Inl (TypeError (NotAFunction ''validate''))
           | Some v \<Rightarrow> argumentValidators ext v a))"

section \<open>The command record (\<open>Command.js\<close>)\<close>

record command =
  name :: jsval
  commandType :: string
  callsign :: jsval
  args :: jsval

definition Command :: "jsval \<Rightarrow> string \<Rightarrow> jsval \<Rightarrow> jsval \<Rightarrow> command" where
  "Command n t c a = \<lparr>name = n, commandType = t, callsign = c, args = a\<rparr>"

text \<open>
  The getter \<open>nameAndArgs\<close> is \<open>[this.name, ...this.args]\<close>: spreading needs an
  iterable argument value.
\<close>

definition nameAndArgs :: "command \<Rightarrow> jsval result" where
  "nameAndArgs c =
     (case args c of
        JArr xs \<Rightarrow> Inr (JArr (name c # xs))
      | JStr s \<Rightarrow> Inr (JArr (name c # map (\<lambda>ch. JStr [ch]) s))
      | _ \<Rightarrow> Inl (TypeError NotIterable))"

section \<open>The parser (\<open>CommandParser.js\<close>)\<close>

definition COMMAND_ARGS_SEPARATOR :: char where
  "COMMAND_ARGS_SEPARATOR = CHR '' ''"

definition isSystemCommand :: "string \<Rightarrow> bool" where
  "isSystemCommand token = js_in token SYSTEM_COMMAND_MAP"

text \<open>
  \<open>_parseSystemCommand(tokens)\<close>. A method that returns a \<open>Command\<close> returns \<open>Some\<close>; one
  that falls off its end returns \<open>undefined\<close>, which is \<open>None\<close>.
\<close>

definition parseSystemCommand :: "externals \<Rightarrow> string list \<Rightarrow> command option result" where
  "parseSystemCommand ext tokens =
     (let commandName = element (map JStr tokens) 0;
          argTokens = lodash_tail tokens
      in bind_err (aliasToRootCommand SYSTEM_COMMAND_MAP commandName) (\<lambda>rootCmd.
         bind_err (call_parse ext (get_entry SYSTEM_COMMAND_MAP rootCmd) (JArr (map JStr argTokens)))
           (\<lambda>parsedArgs.
         bind_err (call_validate ext (get_entry SYSTEM_COMMAND_MAP rootCmd) parsedArgs)
           (\<lambda>validatedArgs.
         Inr (Some (Command (key_value rootCmd) ''system'' (JStr []) validatedArgs))))))"

text \<open>
  \<open>_parseAircraftCommand(tokens)\<close>. The body of its \<open>while (tail.length > 0)\<close> loop ends
  in \<open>return new Command(...)\<close>: the loop condition is evaluated once, the body runs at
  most once, and the assignment \<open>tail = tmp\<close> before the \<open>return\<close> is never read. With an
  empty tail the method falls off its end.
\<close>

definition parseAircraftCommand :: "externals \<Rightarrow> string list \<Rightarrow> command option result" where
  "parseAircraftCommand ext tokens =
     (let callsign = element (map JStr tokens) 0;
          tail = lodash_tail tokens
      in if length tail > 0 then
           (let commandName = element (map JStr tail) 0
            in bind_err (aliasToRootCommand AIRCRAFT_COMMAND_MAP commandName) (\<lambda>rootCmd.
               bind_err (call_parse ext (get_entry AIRCRAFT_COMMAND_MAP rootCmd) (JArr (map JStr tail)))
                 (\<lambda>parsed.
               bind_err (destructure2 parsed) (\<lambda>(parsedArgs, tmp).
               bind_err (call_validate ext (get_entry AIRCRAFT_COMMAND_MAP rootCmd) parsedArgs)
                 (\<lambda>validatedArgs.
               Inr (Some (Command (key_value rootCmd) ''aircraft'' callsign validatedArgs)))))))
         else Inr None)"

text \<open>
  \<open>CommandParser.parse(rawInput)\<close>. \<open>tokens[0]\<close> is a string, since \<open>split\<close> returns at
  least one piece; on an empty array it would be \<open>undefined\<close>, which is not \<open>in\<close> the
  system registry.
\<close>

definition parse :: "externals \<Rightarrow> jsval \<Rightarrow> command option result" where
  "parse ext rawInput =
     (if \<not> lodash_isString rawInput
      then Inl (TypeError (ExpectsString (typeof rawInput)))
      else (case rawInput of
              JStr s \<Rightarrow>
                (let tokens = split COMMAND_ARGS_SEPARATOR (toLowerCase s)
                 in (case tokens of
                       [] \<Rightarrow> parseAircraftCommand ext tokens
                     | callsignOrSystemCommand # rest \<Rightarrow>
                         if isSystemCommand callsignOrSystemCommand
                         then parseSystemCommand ext tokens
                         else parseAircraftCommand ext tokens))
            | _ \<Rightarrow> Inl (TypeError (ExpectsString (typeof rawInput)))))"

section \<open>One instance of the imported functions\<close>

text \<open>
  Modelled from the spec: the argument parsers, the argument validators and the number
  converter (\<open>parser/ArgumentParsers\<close>, \<open>parser/ArgumentValidators\<close>,
  \<open>utilities/unitConverters\<close>) are missing from the sources. The specification gives
  their contract: a parser of the Entity category maps the token tail to the pair
  (parsed arguments, remaining tokens), a heading or speed sub-command consuming its own
  tokens; a parser of the System category maps the tokens to the parsed arguments, the
  token \<open>50\<close> becoming the number 50; a validator returns the arguments or fails with a
  validation error (arity mismatch). \<open>spec_externals\<close> is one such instance, on which
  the parser is run at concrete inputs. Every general theorem below holds for all
  \<^typ>\<open>externals\<close>.
\<close>

definition is_digit :: "char \<Rightarrow> bool" where
  "is_digit c = (48 \<le> (of_char c :: nat) \<and> (of_char c :: nat) \<le> 57)"

definition decimal :: "string \<Rightarrow> int" where
  "decimal s = foldl (\<lambda>n c. 10 * n + (int (of_char c) - 48)) 0 s"

fun spec_convertStringToNumber :: "jsval \<Rightarrow> jsval result" where
  "spec_convertStringToNumber (JStr s) =
     Inr (if s \<noteq> [] \<and> list_all is_digit s then JNum (decimal s) else JNaN)"
| "spec_convertStringToNumber v = Inr JNaN"

definition number_of_token :: "jsval \<Rightarrow> jsval" where
  "number_of_token v = (case spec_convertStringToNumber v of Inl e \<Rightarrow> JNaN | Inr n \<Rightarrow> n)"

fun arity_ok :: "validator \<Rightarrow> nat \<Rightarrow> bool" where
  "arity_ok zeroArgumentsValidator n = (n = 0)"
| "arity_ok singleArgumentValidator n = (n = 1)"
| "arity_ok zeroOrOneArgumentValidator n = (n \<le> 1)"
| "arity_ok v n = True"

fun spec_validate :: "validator \<Rightarrow> jsval \<Rightarrow> jsval result" where
  "spec_validate v (JArr xs) =
     (if arity_ok v (length xs) then Inr (JArr xs) else Inl (OtherError ''ValidationError''))"
| "spec_validate v a = Inl (OtherError ''ValidationError'')"

definition spec_parse :: "parser \<Rightarrow> jsval \<Rightarrow> jsval result" where
  "spec_parse p a =
     (case a of
        JArr tokens \<Rightarrow>
          (if p = timewarpParser then Inr (JArr (map number_of_token tokens))
           else (case tokens of
                   commandName # argument # remaining \<Rightarrow>
                     Inr (JArr [JArr [number_of_token argument], JArr remaining])
                 | _ \<Rightarrow> Inl (OtherError ''ValidationError'')))
      | _ \<Rightarrow> Inl (OtherError ''ValidationError''))"

definition spec_externals :: externals where
  "spec_externals =
     \<lparr>convertStringToNumber = spec_convertStringToNumber,
      argumentValidators = spec_validate,
      argumentParsers = spec_parse\<rparr>"

section \<open>Basic facts about the built-ins\<close>

lemma bind_err_simps [simp]:
  "bind_err (Inl e) f = Inl e"
  "bind_err (Inr v) f = f v"
  by (simp_all add: bind_err_def)

lemma split_not_Nil: "split sep s \<noteq> []"
  by (induction s) (auto split: list.splits)




lemma of_char_toLowerChar:
  "(of_char (toLowerChar c) :: nat) =
     (if (65 \<le> (of_char c :: nat) \<and> (of_char c :: nat) \<le> 90) \<or>
         (192 \<le> (of_char c :: nat) \<and> (of_char c :: nat) \<le> 222 \<and> (of_char c :: nat) \<noteq> 215)
      then of_char c + 32 else of_char c)"
  by (auto simp: toLowerChar_def Let_def)

lemma toLowerChar_space: "toLowerChar c = CHR '' '' \<longleftrightarrow> c = CHR '' ''"
proof -
  have "toLowerChar c = CHR '' '' \<longleftrightarrow> (of_char (toLowerChar c) :: nat) = of_char (CHR '' '')"
    by (simp only: of_char_eq_iff)
  also have "\<dots> \<longleftrightarrow> (of_char c :: nat) = of_char (CHR '' '')"
    by (simp add: of_char_toLowerChar)
  also have "\<dots> \<longleftrightarrow> c = CHR '' ''"
    by (simp only: of_char_eq_iff)
  finally show ?thesis .
qed


lemma indexOf_range: "-1 \<le> indexOf as v"
  by (induction as) (simp_all add: Let_def)

lemma indexOf_found: "indexOf as v \<noteq> -1 \<longleftrightarrow> v \<in> JStr ` set as"
proof (induction as)
  case Nil
  show ?case by simp
next
  case (Cons a as)
  have "indexOf as v + 1 \<noteq> -1"
    using indexOf_range[of as v] by arith
  with Cons show ?case
    by (auto simp: Let_def)
qed

section \<open>Facts about the registries and the resolver\<close>

lemma aircraft_entry_sel [simp]:
  "aliases (aircraft_entry as f v p) = Some as"
  "functionName (aircraft_entry as f v p) = Some f"
  "validate_field (aircraft_entry as f v p) = Some v"
  "parse_field (aircraft_entry as f v p) = Some p"
  by (simp_all add: aircraft_entry_def)

lemma system_entry_sel [simp]:
  "aliases (system_entry v p) = None"
  "functionName (system_entry v p) = None"
  "validate_field (system_entry v p) = Some v"
  "parse_field (system_entry v p) = Some p"
  by (simp_all add: system_entry_def)

lemma empty_entry_sel [simp]:
  "aliases empty_entry = None"
  "functionName empty_entry = None"
  "validate_field empty_entry = None"
  "parse_field empty_entry = None"
  by (simp_all add: empty_entry_def)

lemma aliasToRootCommand_Nil: "aliasToRootCommand [] v = Inr None"
  by (simp add: aliasToRootCommand_def)

lemma aliasToRootCommand_Cons:
  "aliasToRootCommand ((k, d) # R) v =
     (case aliases d of
        None \<Rightarrow> Inl (TypeError (PropertyOfUndefined ''indexOf''))
      | Some as \<Rightarrow> if v \<in> JStr ` set as then Inr (Some k) else aliasToRootCommand R v)"
  by (simp add: aliasToRootCommand_def indexOf_found split: option.splits)

text \<open>
  On a registry all of whose entries carry an alias list, the resolver returns the key of
  the first entry, in registry order, whose list holds the token, and \<open>undefined\<close> when
  no list does.
\<close>

lemma aliasToRootCommand_find:
  "list_all (\<lambda>(k, d). aliases d \<noteq> None) R \<Longrightarrow>
   aliasToRootCommand R v =
     Inr (map_option fst (find (\<lambda>(k, d). v \<in> JStr ` set (alias_list d)) R))"
  by (induction R) (auto simp: aliasToRootCommand_Nil aliasToRootCommand_Cons alias_list_def)

lemma aircraft_all_aliases: "list_all (\<lambda>(k, d). aliases d \<noteq> None) AIRCRAFT_COMMAND_MAP"
  by (simp add: AIRCRAFT_COMMAND_MAP_def)

lemma aircraft_undefined_key: "get_entry AIRCRAFT_COMMAND_MAP None = None"
  by (simp add: get_entry_def AIRCRAFT_COMMAND_MAP_def)

text \<open>The first entry of the system registry has no alias list, so the search ends there.\<close>

lemma resolver_fails_on_system_registry:
  "aliasToRootCommand SYSTEM_COMMAND_MAP v = Inl (TypeError (PropertyOfUndefined ''indexOf''))"
  by (simp add: SYSTEM_COMMAND_MAP_def aliasToRootCommand_Cons)

section \<open>Facts about the two parsing paths\<close>

lemma parseSystemCommand_fails:
  "parseSystemCommand ext tokens = Inl (TypeError (PropertyOfUndefined ''indexOf''))"
  by (simp add: parseSystemCommand_def resolver_fails_on_system_registry)

lemma parse_string:
  "parse ext (JStr s) =
     (if isSystemCommand (hd (split COMMAND_ARGS_SEPARATOR (toLowerCase s)))
      then parseSystemCommand ext (split COMMAND_ARGS_SEPARATOR (toLowerCase s))
      else parseAircraftCommand ext (split COMMAND_ARGS_SEPARATOR (toLowerCase s)))"
  by (cases "split COMMAND_ARGS_SEPARATOR (toLowerCase s)")
     (simp_all add: parse_def split_not_Nil)

lemma parse_non_string:
  "\<not> lodash_isString v \<Longrightarrow> parse ext v = Inl (TypeError (ExpectsString (typeof v)))"
  by (simp add: parse_def)

lemma parseAircraftCommand_one: "parseAircraftCommand ext [c] = Inr None"
  by (simp add: parseAircraftCommand_def)

lemma parseAircraftCommand_two:
  "parseAircraftCommand ext (c # t # rest) =
     bind_err (aliasToRootCommand AIRCRAFT_COMMAND_MAP (JStr t)) (\<lambda>rootCmd.
     bind_err (call_parse ext (get_entry AIRCRAFT_COMMAND_MAP rootCmd) (JArr (map JStr (t # rest))))
       (\<lambda>parsed.
     bind_err (destructure2 parsed) (\<lambda>(parsedArgs, tmp).
     bind_err (call_validate ext (get_entry AIRCRAFT_COMMAND_MAP rootCmd) parsedArgs)
       (\<lambda>validatedArgs.
     Inr (Some (Command (key_value rootCmd) ''aircraft'' (JStr c) validatedArgs))))))"
  by (simp add: parseAircraftCommand_def)

lemma parseAircraftCommand_unknown:
  "aliasToRootCommand AIRCRAFT_COMMAND_MAP (JStr t) = Inr None \<Longrightarrow>
   parseAircraftCommand ext (c # t # rest) = Inl (TypeError (PropertyOfUndefined ''parse''))"
  by (simp add: parseAircraftCommand_two aircraft_undefined_key call_parse_def)

lemma tokens_system_lines:
  "split COMMAND_ARGS_SEPARATOR (toLowerCase ''timewarp 50'') = [''timewarp'', ''50'']"
  "split COMMAND_ARGS_SEPARATOR (toLowerCase ''constructor'') = [''constructor'']"
  "split COMMAND_ARGS_SEPARATOR (toLowerCase ''timewarp  50'') = [''timewarp'', [], ''50'']"
  by (simp_all add: COMMAND_ARGS_SEPARATOR_def toLowerCase_def toLowerChar_def char_of_eq_iff)

lemma classified_as_system:
  "isSystemCommand ''timewarp''"
  "isSystemCommand ''constructor''"
  by (simp_all add: isSystemCommand_def js_in_def own_keys_def SYSTEM_COMMAND_MAP_def
      Object_prototype_properties_def)

lemma split_no_sep: "sep \<notin> set s \<Longrightarrow> split sep s = [s]"
  by (induction s) auto

lemma space_in_toLowerCase: "CHR '' '' \<in> set (toLowerCase s) \<longleftrightarrow> CHR '' '' \<in> set s"
proof -
  have "CHR '' '' \<in> set (toLowerCase s) \<longleftrightarrow> (\<exists>c\<in>set s. toLowerChar c = CHR '' '')"
    unfolding toLowerCase_def set_map image_iff by (rule bex_cong) auto
  also have "\<dots> \<longleftrightarrow> CHR '' '' \<in> set s"
    by (simp add: toLowerChar_space)
  finally show ?thesis .
qed

text \<open>
  A line without a space is one token. When the classifier rejects it, the aircraft path
  finds an empty tail, skips its loop and returns \<open>undefined\<close>.
\<close>

lemma single_token_rejected_by_classifier:
  "CHR '' '' \<notin> set s \<Longrightarrow> \<not> isSystemCommand (toLowerCase s) \<Longrightarrow> parse ext (JStr s) = Inr None"
  by (simp add: parse_string split_no_sep space_in_toLowerCase COMMAND_ARGS_SEPARATOR_def
      parseAircraftCommand_one)

lemma tokens_aa777:
  "split COMMAND_ARGS_SEPARATOR (toLowerCase ''aa777'') = [''aa777'']"
  "split COMMAND_ARGS_SEPARATOR (toLowerCase ''AA777 FH 030'') = [''aa777'', ''fh'', ''030'']"
  "split COMMAND_ARGS_SEPARATOR (toLowerCase ''aa777 fh 030'') = [''aa777'', ''fh'', ''030'']"
  "split COMMAND_ARGS_SEPARATOR (toLowerCase ''AA777 fh 030 sp 250'')
     = [''aa777'', ''fh'', ''030'', ''sp'', ''250'']"
  "split COMMAND_ARGS_SEPARATOR (toLowerCase ''AA777 xyz'') = [''aa777'', ''xyz'']"
  "split COMMAND_ARGS_SEPARATOR (toLowerCase ''AA777  fh 030'') = [''aa777'', [], ''fh'', ''030'']"
  "split COMMAND_ARGS_SEPARATOR (toLowerCase ''AA777 fh  030'') = [''aa777'', ''fh'', [], ''030'']"
  by (simp_all add: COMMAND_ARGS_SEPARATOR_def toLowerCase_def toLowerChar_def char_of_eq_iff)

lemma aa777_not_system: "\<not> isSystemCommand ''aa777''"
  by (simp add: isSystemCommand_def js_in_def own_keys_def SYSTEM_COMMAND_MAP_def
      Object_prototype_properties_def)

lemma resolve_fh: "aliasToRootCommand AIRCRAFT_COMMAND_MAP (JStr ''fh'') = Inr (Some ''heading'')"
  by (simp add: AIRCRAFT_COMMAND_MAP_def aliasToRootCommand_Cons)

lemma heading_entry:
  "get_entry AIRCRAFT_COMMAND_MAP (Some ''heading'') =
     Some (aircraft_entry [''fh'', ''h'', ''heading'', ''t'', ''turn'']
             ''runHeading'' headingValidator headingParser)"
  by (simp add: get_entry_def AIRCRAFT_COMMAND_MAP_def)

text \<open>
  A line whose first sub-command token is \<open>fh\<close>: the heading entry's \<open>parse\<close> receives
  the whole working tail, its \<open>validate\<close> the first component of the result.
\<close>

lemma heading_line:
  "parseAircraftCommand ext (c # ''fh'' # rest) =
     bind_err (argumentParsers ext headingParser (JArr (map JStr (''fh'' # rest)))) (\<lambda>parsed.
     bind_err (destructure2 parsed) (\<lambda>(parsedArgs, tmp).
     bind_err (argumentValidators ext headingValidator parsedArgs) (\<lambda>validatedArgs.
     Inr (Some (Command (JStr ''heading'') ''aircraft'' (JStr c) validatedArgs)))))"
  by (simp add: parseAircraftCommand_two resolve_fh heading_entry call_parse_def
      call_validate_def run_parser_def key_value_def)

lemma spec_heading_030:
  "parseAircraftCommand spec_externals (c # ''fh'' # ''030'' # rest) =
     Inr (Some (Command (JStr ''heading'') ''aircraft'' (JStr c) (JArr [JNum 30])))"
  by (simp add: heading_line spec_externals_def spec_parse_def number_of_token_def
      is_digit_def decimal_def)

lemma xyz_unresolved: "aliasToRootCommand AIRCRAFT_COMMAND_MAP (JStr ''xyz'') = Inr None"
  by (simp add: AIRCRAFT_COMMAND_MAP_def aliasToRootCommand_Cons aliasToRootCommand_Nil)


text \<open>
  A token resolves to nothing in the aircraft registry exactly when no alias list of the
  registry holds it.
\<close>

lemma aircraft_unresolved_iff:
  "aliasToRootCommand AIRCRAFT_COMMAND_MAP (JStr t) = Inr None \<longleftrightarrow>
   t \<notin> set (concat (map (\<lambda>(k, d). alias_list d) AIRCRAFT_COMMAND_MAP))"
proof -
  have "aliasToRootCommand AIRCRAFT_COMMAND_MAP (JStr t) = Inr None \<longleftrightarrow>
        find (\<lambda>(k, d). JStr t \<in> JStr ` set (alias_list d)) AIRCRAFT_COMMAND_MAP = None"
    by (simp add: aliasToRootCommand_find[OF aircraft_all_aliases])
  also have "\<dots> \<longleftrightarrow> (\<forall>(k, d) \<in> set AIRCRAFT_COMMAND_MAP. t \<notin> set (alias_list d))"
    by (auto simp: find_None_iff)
  also have "\<dots> \<longleftrightarrow> t \<notin> set (concat (map (\<lambda>(k, d). alias_list d) AIRCRAFT_COMMAND_MAP))"
    by auto
  finally show ?thesis .
qed







lemma disjoint_of_distinct_concat:
  "distinct (concat (map f xs)) \<Longrightarrow> x \<in> set xs \<Longrightarrow> y \<in> set xs \<Longrightarrow> x \<noteq> y \<Longrightarrow>
   set (f x) \<inter> set (f y) = {}"
  by (induction xs) auto

lemma aircraft_aliases_distinct:
  "distinct (concat (map (\<lambda>(k, d). alias_list d) AIRCRAFT_COMMAND_MAP))"
  by (simp add: AIRCRAFT_COMMAND_MAP_def alias_list_def)

lemma system_no_aliases:
  "(k, d) \<in> set SYSTEM_COMMAND_MAP \<Longrightarrow> alias_list d = []"
  "(k, d) \<in> set systemCommandMap_SYSTEM_COMMAND_MAP \<Longrightarrow> alias_list d = []"
  by (auto simp: SYSTEM_COMMAND_MAP_def systemCommandMap_SYSTEM_COMMAND_MAP_def alias_list_def)

lemma heading_speed_entries:
  "(''heading'', aircraft_entry [''fh'', ''h'', ''heading'', ''t'', ''turn'']
        ''runHeading'' headingValidator headingParser) \<in> set AIRCRAFT_COMMAND_MAP"
  "(''speed'', aircraft_entry [''-'', ''+'', ''slow'', ''sp'', ''speed'']
        ''runSpeed'' singleArgumentValidator speed_arrow) \<in> set AIRCRAFT_COMMAND_MAP"
  by (simp_all add: AIRCRAFT_COMMAND_MAP_def)

section \<open>The claims\<close>

text \<open>
  C1. The line \<open>AA777 fh 030 sp 250\<close> chains two sub-commands, and the claim is that
  \<open>parse\<close> yields two Command records, the first from \<open>fh\<close> and the second from \<open>sp\<close>.
  The code does not: the body of the loop in \<open>_parseAircraftCommand\<close> ends in
  \<open>return new Command(...)\<close>, so the outcome of \<open>parse\<close> on this line is the outcome of
  the first sub-command alone. The alias \<open>fh\<close> resolves to \<open>heading\<close>, the heading entry's
  \<open>parse\<close> receives the whole working tail \<open>[fh, 030, sp, 250]\<close>, its \<open>validate\<close> the
  first component of the result, and the single record returned has name \<open>heading\<close>,
  type \<open>aircraft\<close> and the lower-cased target id \<open>aa777\<close>. No record is built for
  \<open>sp 250\<close>, whatever the imported parsers and validators are.
\<close>

theorem chained_line_returns_after_first_command:
  "parse ext (JStr ''AA777 fh 030 sp 250'') =
     bind_err (argumentParsers ext headingParser
                 (JArr [JStr ''fh'', JStr ''030'', JStr ''sp'', JStr ''250''])) (\<lambda>parsed.
     bind_err (destructure2 parsed) (\<lambda>(parsedArgs, tmp).
     bind_err (argumentValidators ext headingValidator parsedArgs) (\<lambda>validatedArgs.
     Inr (Some (Command (JStr ''heading'') ''aircraft'' (JStr ''aa777'') validatedArgs)))))"
  by (simp add: parse_string tokens_aa777 aa777_not_system heading_line)

theorem chained_line_returns_after_first_command_witness:
  "parse spec_externals (JStr ''AA777 fh 030 sp 250'') =
     Inr (Some (Command (JStr ''heading'') ''aircraft'' (JStr ''aa777'') (JArr [JNum 30])))"
  using chained_line_returns_after_first_command[of spec_externals]
  by (simp add: spec_externals_def spec_parse_def number_of_token_def is_digit_def decimal_def)

text \<open>
  C2. The line \<open>timewarp 50\<close> is classified as a system command, and the system path
  resolves its first token through \<open>aliasToRootCommand\<close> on the system registry, whose
  entries have no alias lists: the resolver's predicate reads \<open>indexOf\<close> of \<open>undefined\<close>
  on the first entry. \<open>parse\<close> therefore throws a \<open>TypeError\<close>; no Command record with
  name \<open>timewarp\<close> and arguments \<open>[50]\<close> is built, whatever the imported parsers and
  validators are.
\<close>

theorem timewarp_line_throws:
  "parse ext (JStr ''timewarp 50'') = Inl (TypeError (PropertyOfUndefined ''indexOf''))"
  by (simp add: parse_string tokens_system_lines classified_as_system parseSystemCommand_fails)

text \<open>
  C3 (as amended). For a line of at least two tokens that the classifier does not take
  for a system command and whose second token resolves to no canonical command in the
  aircraft registry, \<open>parse\<close> fails and returns nothing. The failure is the \<open>TypeError\<close>
  of reading \<open>parse\<close> from the undefined registry entry; the code has no error kind of
  its own for an unknown command.
\<close>

theorem unknown_subcommand_throws_type_error:
  assumes "split COMMAND_ARGS_SEPARATOR (toLowerCase s) = c # t # rest"
    and "\<not> isSystemCommand c"
    and "aliasToRootCommand AIRCRAFT_COMMAND_MAP (JStr t) = Inr None"
  shows "parse ext (JStr s) = Inl (TypeError (PropertyOfUndefined ''parse''))"
  using assms by (simp add: parse_string parseAircraftCommand_unknown)

theorem unknown_subcommand_throws_type_error_witness:
  "parse spec_externals (JStr ''AA777 xyz'') = Inl (TypeError (PropertyOfUndefined ''parse''))"
  by (rule unknown_subcommand_throws_type_error[OF tokens_aa777(5) aa777_not_system xyz_unresolved])

text \<open>
  C3 as stated fails: on \<open>AA777 xyz\<close>, whose sub-command token \<open>xyz\<close> is no alias,
  \<open>parse\<close> fails with a \<open>TypeError\<close>, which is not an error of the class
  \<open>UnknownCommandError\<close>.
\<close>

theorem unknown_subcommand_counterexample:
  "parse spec_externals (JStr ''AA777 xyz'') = Inl (TypeError (PropertyOfUndefined ''parse'')) \<and>
   parse spec_externals (JStr ''AA777 xyz'') \<noteq> Inl (OtherError ''UnknownCommandError'')"
  by (simp add: parse_string tokens_aa777 aa777_not_system parseAircraftCommand_unknown xyz_unresolved)

text \<open>
  C4. A value that is not a string makes \<open>parse\<close> throw the \<open>TypeError\<close> of its first
  statement, whose message carries the \<open>typeof\<close> of the value; this result depends on
  nothing else, in particular not on any token. A string passes the check, and the result
  of \<open>parse\<close> is then that of the system or the aircraft path on the tokens of the
  lower-cased string.
\<close>

theorem input_type_check:
  "(\<not> lodash_isString v \<longrightarrow> parse ext v = Inl (TypeError (ExpectsString (typeof v)))) \<and>
   (lodash_isString v \<longrightarrow>
      (\<exists>s. v = JStr s \<and>
           parse ext v =
             (if isSystemCommand (hd (split COMMAND_ARGS_SEPARATOR (toLowerCase s)))
              then parseSystemCommand ext (split COMMAND_ARGS_SEPARATOR (toLowerCase s))
              else parseAircraftCommand ext (split COMMAND_ARGS_SEPARATOR (toLowerCase s)))))"
proof (cases v)
  case (JStr s)
  then show ?thesis by (simp add: parse_string)
qed (simp_all add: parse_non_string)

theorem input_type_check_witness:
  "parse spec_externals (JNum 5) = Inl (TypeError (ExpectsString ''number'')) \<and>
   parse spec_externals JNull = Inl (TypeError (ExpectsString ''object'')) \<and>
   parse spec_externals (JStr ''aa777'') = Inr None"
  using input_type_check[of "JNum 5" spec_externals] input_type_check[of JNull spec_externals]
    input_type_check[of "JStr ''aa777''" spec_externals]
  by (simp add: tokens_aa777 aa777_not_system parseAircraftCommand_one)




text \<open>
  C6. On the system registry the resolver neither returns a canonical name nor
  \<open>undefined\<close>: its predicate calls \<open>indexOf\<close> on the missing \<open>aliases\<close> field of the
  first entry and throws a \<open>TypeError\<close>, here for the token \<open>timewarp\<close>. (On a registry
  whose entries all have alias lists it behaves as claimed: \<open>aliasToRootCommand_find\<close>.)
\<close>

theorem resolver_throws_on_system_registry:
  "aliasToRootCommand SYSTEM_COMMAND_MAP (JStr ''timewarp'') =
     Inl (TypeError (PropertyOfUndefined ''indexOf''))"
  by (rule resolver_fails_on_system_registry)

text \<open>
  C7. In each registry (the aircraft registry and the system registries of both modules)
  two entries with different canonical names have no alias in common. In the aircraft
  registry all aliases of all entries are distinct; the entries of the system registries
  have no aliases at all.
\<close>

theorem alias_sets_pairwise_disjoint:
  assumes "R = AIRCRAFT_COMMAND_MAP \<or> R = SYSTEM_COMMAND_MAP \<or>
           R = systemCommandMap_SYSTEM_COMMAND_MAP"
    and "(k1, d1) \<in> set R" and "(k2, d2) \<in> set R" and "k1 \<noteq> k2"
  shows "set (alias_list d1) \<inter> set (alias_list d2) = {}"
proof -
  consider (aircraft) "R = AIRCRAFT_COMMAND_MAP"
    | (system) "R = SYSTEM_COMMAND_MAP \<or> R = systemCommandMap_SYSTEM_COMMAND_MAP"
    using assms(1) by blast
  then show ?thesis
  proof cases
    case aircraft
    have "(k1, d1) \<noteq> (k2, d2)" using assms(4) by simp
    with disjoint_of_distinct_concat[OF aircraft_aliases_distinct, of "(k1, d1)" "(k2, d2)"]
      assms(2,3) aircraft
    show ?thesis by simp
  next
    case system
    with assms(2) have "alias_list d1 = []"
      by (auto simp: system_no_aliases)
    then show ?thesis by simp
  qed
qed

theorem alias_sets_pairwise_disjoint_witness:
  "set (alias_list (aircraft_entry [''fh'', ''h'', ''heading'', ''t'', ''turn'']
        ''runHeading'' headingValidator headingParser)) \<inter>
   set (alias_list (aircraft_entry [''-'', ''+'', ''slow'', ''sp'', ''speed'']
        ''runSpeed'' singleArgumentValidator speed_arrow)) = {}"
  by (rule alias_sets_pairwise_disjoint[OF disjI1[OF refl] heading_speed_entries]) simp

text \<open>
  C8. The \<open>transmit\<close> entry of the system registry is the empty object: it has neither a
  \<open>validate\<close> nor a \<open>parse\<close> field, so calling either is a call of \<open>undefined\<close>. It is the
  only entry of the system registry (of either module) that lacks one of the two fields,
  and no entry of the aircraft registry lacks one.
\<close>

theorem transmit_entry_has_no_functions:
  "map_of SYSTEM_COMMAND_MAP ''transmit'' = Some empty_entry \<and>
   map_of systemCommandMap_SYSTEM_COMMAND_MAP ''transmit'' = Some empty_entry \<and>
   validate_field empty_entry = None \<and>
   parse_field empty_entry = None \<and>
   map fst (filter (\<lambda>(k, d). validate_field d = None \<or> parse_field d = None) SYSTEM_COMMAND_MAP)
     = [''transmit''] \<and>
   map fst (filter (\<lambda>(k, d). validate_field d = None \<or> parse_field d = None)
              systemCommandMap_SYSTEM_COMMAND_MAP)
     = [''transmit''] \<and>
   filter (\<lambda>(k, d). validate_field d = None \<or> parse_field d = None) AIRCRAFT_COMMAND_MAP = [] \<and>
   call_parse ext (get_entry SYSTEM_COMMAND_MAP (Some ''transmit'')) a
     = Inl (TypeError (NotAFunction ''parse'')) \<and>
   call_validate ext (get_entry SYSTEM_COMMAND_MAP (Some ''transmit'')) a
     = Inl (TypeError (NotAFunction ''validate''))"
proof -
  have sys: "map_of SYSTEM_COMMAND_MAP ''transmit'' = Some empty_entry"
    by (simp add: SYSTEM_COMMAND_MAP_def)
  have sys': "map_of systemCommandMap_SYSTEM_COMMAND_MAP ''transmit'' = Some empty_entry"
    by (simp add: systemCommandMap_SYSTEM_COMMAND_MAP_def)
  have only: "map fst (filter (\<lambda>(k, d). validate_field d = None \<or> parse_field d = None)
      SYSTEM_COMMAND_MAP) = [''transmit'']"
    by (simp add: SYSTEM_COMMAND_MAP_def)
  have only': "map fst (filter (\<lambda>(k, d). validate_field d = None \<or> parse_field d = None)
      systemCommandMap_SYSTEM_COMMAND_MAP) = [''transmit'']"
    by (simp add: systemCommandMap_SYSTEM_COMMAND_MAP_def)
  have air: "filter (\<lambda>(k, d). validate_field d = None \<or> parse_field d = None)
      AIRCRAFT_COMMAND_MAP = []"
    by (simp add: AIRCRAFT_COMMAND_MAP_def)
  show ?thesis
    by (simp add: sys sys' only only' air get_entry_def call_parse_def call_validate_def)
qed

text \<open>
  C9. The lines \<open>AA777 FH 030\<close> and \<open>aa777 fh 030\<close> have the same tokens after
  lower-casing, so \<open>parse\<close> gives the same outcome on both, whatever the imported
  parsers and validators are.
\<close>

theorem parsing_is_case_insensitive:
  "parse ext (JStr ''AA777 FH 030'') = parse ext (JStr ''aa777 fh 030'')"
  by (simp add: parse_string tokens_aa777)

theorem parsing_is_case_insensitive_witness:
  "parse spec_externals (JStr ''AA777 FH 030'') =
     Inr (Some (Command (JStr ''heading'') ''aircraft'' (JStr ''aa777'') (JArr [JNum 30]))) \<and>
   parse spec_externals (JStr ''aa777 fh 030'') =
     Inr (Some (Command (JStr ''heading'') ''aircraft'' (JStr ''aa777'') (JArr [JNum 30])))"
  using parsing_is_case_insensitive[of spec_externals]
  by (simp add: parse_string tokens_aa777 aa777_not_system spec_heading_030)

text \<open>
  C10. The one-token line \<open>constructor\<close> is not a key of the system registry, yet the
  classifier's \<open>in\<close> test accepts it, because the registry object inherits a property of
  that name. The line takes the system path and \<open>parse\<close> throws a \<open>TypeError\<close> instead
  of returning \<open>undefined\<close>. (For a one-token line that the classifier rejects the claim
  holds: \<open>single_token_rejected_by_classifier\<close>.)
\<close>

theorem constructor_line_throws:
  "''constructor'' \<notin> set (own_keys SYSTEM_COMMAND_MAP) \<and>
   CHR '' '' \<notin> set ''constructor'' \<and>
   parse ext (JStr ''constructor'') = Inl (TypeError (PropertyOfUndefined ''indexOf''))"
  by (simp add: parse_string tokens_system_lines classified_as_system parseSystemCommand_fails
     own_keys_def SYSTEM_COMMAND_MAP_def)

end
